theory Spec2Isabelle
  imports Complex_Main
begin

section \<open>Errors\<close>

text \<open>
  Every exception the source raises with \<^verbatim>\<open>raise ValueError(...)\<close> is a
  \<open>ValueError\<close> that carries which message it was raised with. The other constructors
  are the exceptions that Python, numpy and the optimisation backend raise themselves.
\<close>

datatype message =
    Inconsistent_shape
  | Unknown_variable string
  | Unknown_uloss
  | Not_enough_dof
  | Missing_us
  | Missing_lambda
  | Empty_concatenate
  | Dimension_mismatch

datatype error =
    AttributeError
  | ValueError message
  | KeyError string
  | IndexError
  | TypeError
  | UnboundLocalError
  | DimensionError
  | BackendError

section \<open>Two-dimensional arrays\<close>

text \<open>
  A numpy array of two dimensions, and a CasADi column or matrix at given values of its
  symbols, is its shape and its entries. Only the entries inside the shape are meaningful.
  The entries are real numbers: rounding of floating point numbers is not modelled.
\<close>

record ndarray =
  nrows :: nat
  ncols :: nat
  entry :: "nat \<Rightarrow> nat \<Rightarrow> real"

definition shape :: "ndarray \<Rightarrow> int \<times> int" where
  "shape A = (int (nrows A), int (ncols A))"

definition rows_upto :: "nat \<Rightarrow> ndarray \<Rightarrow> ndarray" where
  \<comment> \<open>\<^verbatim>\<open>A[:k, :]\<close>\<close>
  "rows_upto k A = \<lparr>nrows = min k (nrows A), ncols = ncols A, entry = entry A\<rparr>"

definition rows_from :: "nat \<Rightarrow> ndarray \<Rightarrow> ndarray" where
  \<comment> \<open>\<^verbatim>\<open>A[k:, :]\<close>\<close>
  "rows_from k A = \<lparr>nrows = nrows A - k, ncols = ncols A, entry = (\<lambda>i. entry A (i + k))\<rparr>"

definition last_rows :: "nat \<Rightarrow> ndarray \<Rightarrow> ndarray" where
  \<comment> \<open>\<^verbatim>\<open>A[-k:]\<close>: Python reads \<^verbatim>\<open>-0\<close> as \<^verbatim>\<open>0\<close>, the whole array\<close>
  "last_rows k A = (if k = 0 then A else rows_from (nrows A - k) A)"

definition but_last_rows :: "nat \<Rightarrow> ndarray \<Rightarrow> ndarray" where
  \<comment> \<open>\<^verbatim>\<open>A[:-k]\<close>: Python reads \<^verbatim>\<open>-0\<close> as \<^verbatim>\<open>0\<close>, no row at all\<close>
  "but_last_rows k A = (if k = 0 then rows_upto 0 A else rows_upto (nrows A - k) A)"

definition npT :: "ndarray \<Rightarrow> ndarray" where
  \<comment> \<open>\<^verbatim>\<open>A.T\<close>\<close>
  "npT A = \<lparr>nrows = ncols A, ncols = nrows A, entry = (\<lambda>i j. entry A j i)\<rparr>"

definition matmul :: "ndarray \<Rightarrow> ndarray \<Rightarrow> ndarray" where
  \<comment> \<open>\<^verbatim>\<open>A @ B\<close>, \<^verbatim>\<open>cs.mtimes(A, B)\<close>\<close>
  "matmul A B =
     \<lparr>nrows = nrows A, ncols = ncols B,
      entry = (\<lambda>i j. \<Sum>k\<in>{..<ncols A}. entry A i k * entry B k j)\<rparr>"

definition madd :: "ndarray \<Rightarrow> ndarray \<Rightarrow> ndarray" where
  \<comment> \<open>\<^verbatim>\<open>A + B\<close> on arrays of one shape\<close>
  "madd A B = \<lparr>nrows = nrows A, ncols = ncols A, entry = (\<lambda>i j. entry A i j + entry B i j)\<rparr>"

definition msub :: "ndarray \<Rightarrow> ndarray \<Rightarrow> ndarray" where
  \<comment> \<open>\<^verbatim>\<open>A - B\<close> on arrays of one shape\<close>
  "msub A B = \<lparr>nrows = nrows A, ncols = ncols A, entry = (\<lambda>i j. entry A i j - entry B i j)\<rparr>"

definition mneg :: "ndarray \<Rightarrow> ndarray" where
  \<comment> \<open>\<^verbatim>\<open>- A\<close>\<close>
  "mneg A = \<lparr>nrows = nrows A, ncols = ncols A, entry = (\<lambda>i j. - entry A i j)\<rparr>"

definition smul :: "real \<Rightarrow> ndarray \<Rightarrow> ndarray" where
  \<comment> \<open>\<^verbatim>\<open>c * A\<close> for a number \<^verbatim>\<open>c\<close>\<close>
  "smul c A = \<lparr>nrows = nrows A, ncols = ncols A, entry = (\<lambda>i j. c * entry A i j)\<rparr>"

definition vstack :: "ndarray \<Rightarrow> ndarray \<Rightarrow> ndarray" where
  \<comment> \<open>the rows of \<open>A\<close>, then the rows of \<open>B\<close>\<close>
  "vstack A B =
     \<lparr>nrows = nrows A + nrows B, ncols = ncols A,
      entry = (\<lambda>i. if i < nrows A then entry A i else entry B (i - nrows A))\<rparr>"

definition tile_column :: "ndarray \<Rightarrow> nat \<Rightarrow> ndarray" where
  \<comment> \<open>\<^verbatim>\<open>np.tile(x, (n, 1)).reshape(-1, 1)\<close>: \<open>n\<close> copies of the rows of \<open>x\<close>, read row by row\<close>
  "tile_column x n =
     \<lparr>nrows = n * nrows x * ncols x, ncols = 1,
      entry = (\<lambda>k j. entry x ((k div ncols x) mod nrows x) (k mod ncols x))\<rparr>"

definition np_any :: "ndarray \<Rightarrow> bool" where
  \<comment> \<open>\<^verbatim>\<open>x.any()\<close>\<close>
  "np_any x = (\<exists>i\<in>{..<nrows x}. \<exists>j\<in>{..<ncols x}. entry x i j \<noteq> 0)"

definition row :: "ndarray \<Rightarrow> nat \<Rightarrow> real list" where
  "row A i = map (entry A i) [0..<ncols A]"

definition rows :: "ndarray \<Rightarrow> real list list" where
  "rows A = map (row A) [0..<nrows A]"

definition column :: "ndarray \<Rightarrow> real list" where
  \<comment> \<open>the entries of the first column, top to bottom\<close>
  "column A = map (\<lambda>i. entry A i 0) [0..<nrows A]"

definition np_index :: "nat \<Rightarrow> int \<Rightarrow> nat" where
  \<comment> \<open>the position that numpy reads at index \<open>k\<close> of an axis of length \<open>n\<close>:
      a negative index counts from the end\<close>
  "np_index n k = nat (if k < 0 then k + int n else k)"

definition take_rows :: "ndarray \<Rightarrow> int list \<Rightarrow> error + ndarray" where
  \<comment> \<open>\<^verbatim>\<open>A[idx, :]\<close> for a list of integers\<close>
  "take_rows A idx =
     (if \<forall>k\<in>set idx. - int (nrows A) \<le> k \<and> k < int (nrows A)
      then Inr \<lparr>nrows = length idx, ncols = ncols A,
                entry = (\<lambda>i. entry A (np_index (nrows A) (idx ! i)))\<rparr>
      else Inl IndexError)"

fun np_concatenate :: "ndarray list \<Rightarrow> error + ndarray" where
  \<comment> \<open>\<^verbatim>\<open>np.concatenate(As)\<close> along the rows\<close>
  "np_concatenate [] = Inl (ValueError Empty_concatenate)"
| "np_concatenate [A] = Inr A"
| "np_concatenate (A # B # Bs) =
     (case np_concatenate (B # Bs) of
        Inl e \<Rightarrow> Inl e
      | Inr C \<Rightarrow> if ncols A = ncols C then Inr (vstack A C)
                 else Inl (ValueError Dimension_mismatch))"

section \<open>Python lists and one-dimensional arrays\<close>

text \<open>
  \<^verbatim>\<open>tolist\<close> is a method of numpy arrays; a Python list has none.
\<close>

datatype seq = PyList "real list" | Array1 "real list"

fun tolist :: "seq \<Rightarrow> error + real list" where
  "tolist (Array1 xs) = Inr xs"
| "tolist (PyList xs) = Inl AttributeError"

definition np_tile :: "real list \<Rightarrow> nat \<Rightarrow> real list" where
  \<comment> \<open>\<^verbatim>\<open>np.tile(xs, n)\<close>\<close>
  "np_tile xs n = concat (replicate n xs)"

section \<open>The controller\<close>

record nlp_prob =
  nlp_f :: "ndarray \<Rightarrow> ndarray \<Rightarrow> ndarray \<Rightarrow> ndarray"
  nlp_x :: "int \<times> int"
  nlp_p :: "(int \<times> int) \<times> (int \<times> int)"
  nlp_g :: "ndarray \<Rightarrow> ndarray \<Rightarrow> ndarray \<Rightarrow> ndarray"

text \<open>
  The objective \<open>nlp_f\<close> and the constraint vector \<open>nlp_g\<close> are CasADi expressions in
  the symbols \<open>g\<close>, \<open>uini\<close> and \<open>yini\<close>: here, functions of the values of the three,
  in that order. \<open>nlp_x\<close> and \<open>nlp_p\<close> are the shapes of the symbols.
  The type \<open>'h\<close> is the solver object that the backend builds.
\<close>

record 'h deepctools =
  u_dim :: nat
  y_dim :: nat
  T :: nat
  Tini :: nat
  Np :: nat
  g_dim :: int
  Q :: ndarray
  R :: ndarray
  lambda_g :: "ndarray option"
  lambda_y :: "ndarray option"
  us :: "ndarray option"
  ys :: ndarray
  yref :: ndarray
  uref :: "ndarray option"
  Hud :: ndarray
  Hyd :: ndarray
  Up :: ndarray
  Uf :: ndarray
  Yp :: ndarray
  Yf :: ndarray
  Hc :: ndarray
  lbc_ineq :: "real list"
  ubc_ineq :: "real list"
  parameters :: "(int \<times> int) \<times> (int \<times> int)"
  optimizing_target :: "int \<times> int"
  solver :: "'h option"
  lbc :: "real list option"
  ubc :: "real list option"

subsection \<open>Shape validation\<close>

definition checkshape :: "ndarray option \<Rightarrow> int \<times> int \<Rightarrow> error + unit" where
  "checkshape x x_shape =
     (case x of
        None \<Rightarrow> Inr ()
      | Some a \<Rightarrow> if shape a \<noteq> x_shape then Inl (ValueError Inconsistent_shape) else Inr ())"

fun first_error :: "(error + unit) list \<Rightarrow> error + unit" where
  \<comment> \<open>statements run in order: the first one that raises ends the run\<close>
  "first_error [] = Inr ()"
| "first_error (Inl e # rs) = Inl e"
| "first_error (Inr u # rs) = first_error rs"

definition checkvar :: "'h deepctools \<Rightarrow> error + unit" where
  \<comment> \<open>the two warnings about persistent excitation raise nothing\<close>
  "checkvar self =
     first_error
       [checkshape (Some (Up self)) (int (u_dim self * Tini self), g_dim self),
        checkshape (Some (Yp self)) (int (y_dim self * Tini self), g_dim self),
        checkshape (Some (Uf self)) (int (u_dim self * Np self), g_dim self),
        checkshape (Some (Yf self)) (int (y_dim self * Np self), g_dim self),
        checkshape (uref self) (int (u_dim self * Np self), 1),
        checkshape (Some (yref self)) (int (y_dim self * Np self), 1),
        checkshape (Some (Q self)) (int (y_dim self * Np self), int (y_dim self * Np self)),
        checkshape (Some (R self)) (int (u_dim self * Np self), int (u_dim self * Np self)),
        checkshape (lambda_g self) (g_dim self, g_dim self),
        checkshape (lambda_y self) (int (y_dim self * Tini self), int (y_dim self * Tini self))]"

subsection \<open>Inequality constraints\<close>

definition subscript :: "(string \<times> real list) list option \<Rightarrow> string \<Rightarrow> error + real list" where
  \<comment> \<open>\<^verbatim>\<open>ineqconbd[key]\<close>: \<^verbatim>\<open>None\<close> has no subscript, a dictionary may lack the key\<close>
  "subscript d key =
     (case d of
        None \<Rightarrow> Inl TypeError
      | Some kvs \<Rightarrow> (case map_of kvs key of None \<Rightarrow> Inl (KeyError key) | Some v \<Rightarrow> Inr v))"

definition idx_H :: "nat \<Rightarrow> nat \<Rightarrow> int list \<Rightarrow> int list" where
  \<comment> \<open>\<^verbatim>\<open>[v + i * dim for i in range(Np) for v in idx]\<close>\<close>
  "idx_H n dim' idx = concat (map (\<lambda>i. map (\<lambda>v. v + int i * int dim') idx) [0..<n])"

definition ineq_block ::
  "nat \<Rightarrow> ndarray \<Rightarrow> nat \<Rightarrow> real list \<Rightarrow> real list \<Rightarrow> int list
     \<Rightarrow> error + (ndarray \<times> real list \<times> real list)" where
  \<comment> \<open>the three \<^verbatim>\<open>append\<close>s of one round of the loop\<close>
  "ineq_block n H_all dim' lb ub idx =
     (case take_rows H_all (idx_H n dim' idx) of
        Inl e \<Rightarrow> Inl e
      | Inr H \<Rightarrow> Inr (H, np_tile lb n, np_tile ub n))"

definition ineq_entry ::
  "'h deepctools \<Rightarrow> (string \<times> real list) list option \<Rightarrow> string \<times> int list
     \<Rightarrow> error + (ndarray \<times> real list \<times> real list)" where
  \<comment> \<open>one round of the loop over \<^verbatim>\<open>ineqconidx.items()\<close>\<close>
  "ineq_entry self ineqconbd item =
     (case item of (varname, idx) \<Rightarrow>
        if varname = ''u'' then
          (case subscript ineqconbd ''lbu'' of Inl e \<Rightarrow> Inl e | Inr lb \<Rightarrow>
           case subscript ineqconbd ''ubu'' of Inl e \<Rightarrow> Inl e | Inr ub \<Rightarrow>
             ineq_block (Np self) (Uf self) (u_dim self) lb ub idx)
        else if varname = ''y'' then
          (case subscript ineqconbd ''lby'' of Inl e \<Rightarrow> Inl e | Inr lb \<Rightarrow>
           case subscript ineqconbd ''uby'' of Inl e \<Rightarrow> Inl e | Inr ub \<Rightarrow>
             ineq_block (Np self) (Yf self) (y_dim self) lb ub idx)
        else Inl (ValueError (Unknown_variable varname)))"

fun ineq_loop ::
  "'h deepctools \<Rightarrow> (string \<times> real list) list option \<Rightarrow> (string \<times> int list) list
     \<Rightarrow> error + (ndarray list \<times> real list list \<times> real list list)" where
  \<comment> \<open>the loop: the lists \<^verbatim>\<open>Hc_list\<close>, \<^verbatim>\<open>lbc_list\<close>, \<^verbatim>\<open>ubc_list\<close> in the order of the items\<close>
  "ineq_loop self ineqconbd [] = Inr ([], [], [])"
| "ineq_loop self ineqconbd (item # items) =
     (case ineq_entry self ineqconbd item of
        Inl e \<Rightarrow> Inl e
      | Inr (H, lb, ub) \<Rightarrow>
          (case ineq_loop self ineqconbd items of
             Inl e \<Rightarrow> Inl e
           | Inr (Hs, lbs, ubs) \<Rightarrow> Inr (H # Hs, lb # lbs, ub # ubs)))"

definition init_ineq_cons ::
  "'h deepctools \<Rightarrow> (string \<times> int list) list option \<Rightarrow> (string \<times> real list) list option
     \<Rightarrow> error + (ndarray \<times> real list \<times> real list)" where
  "init_ineq_cons self ineqconidx ineqconbd =
     (case
        (case ineqconidx of
           None \<Rightarrow> Inr (\<lparr>nrows = 0, ncols = 0, entry = (\<lambda>i j. 0)\<rparr>, PyList [], PyList [])
         | Some items \<Rightarrow>
             (case ineq_loop self ineqconbd items of
                Inl e \<Rightarrow> Inl e
              | Inr (Hc_list, lbc_list, ubc_list) \<Rightarrow>
                  (case np_concatenate Hc_list of
                     Inl e \<Rightarrow> Inl e
                   | Inr Hc' \<Rightarrow> Inr (Hc', Array1 (concat lbc_list), Array1 (concat ubc_list)))))
      of
        Inl e \<Rightarrow> Inl e
      | Inr (Hc', lbc', ubc') \<Rightarrow>
          (case tolist lbc' of Inl e \<Rightarrow> Inl e | Inr lb \<Rightarrow>
           case tolist ubc' of Inl e \<Rightarrow> Inl e | Inr ub \<Rightarrow> Inr (Hc', lb, ub)))"

subsection \<open>Construction\<close>

text \<open>
  \<^verbatim>\<open>util.hankel\<close> is not among the sources: the constructor takes it as its first
  argument. The dimensions \<open>u_dim\<close>, \<open>y_dim\<close>, \<open>T\<close>, \<open>Tini\<close>, \<open>Np\<close> are lengths,
  hence natural numbers; \<open>g_dim\<close> is their difference, an integer.
\<close>

definition init ::
  "(ndarray \<Rightarrow> nat \<Rightarrow> error + ndarray) \<Rightarrow> nat \<Rightarrow> nat \<Rightarrow> nat \<Rightarrow> nat \<Rightarrow> nat
     \<Rightarrow> ndarray \<Rightarrow> ndarray \<Rightarrow> ndarray \<Rightarrow> ndarray \<Rightarrow> ndarray
     \<Rightarrow> ndarray option \<Rightarrow> ndarray option \<Rightarrow> ndarray option
     \<Rightarrow> (string \<times> int list) list option \<Rightarrow> (string \<times> real list) list option
     \<Rightarrow> error + 'h deepctools" where
  "init hankel u_dim' y_dim' T' Tini' Np' ys' ud yd Q' R' us' lambda_g' lambda_y'
        ineqconidx ineqconbd =
     (case us' of
        None \<Rightarrow> Inl AttributeError
      | Some us_array \<Rightarrow>
     (case hankel ud (Tini' + Np') of Inl e \<Rightarrow> Inl e | Inr Hud' \<Rightarrow>
      case hankel yd (Tini' + Np') of Inl e \<Rightarrow> Inl e | Inr Hyd' \<Rightarrow>
        let self =
          \<lparr>u_dim = u_dim', y_dim = y_dim', T = T', Tini = Tini', Np = Np',
           g_dim = int T' - int Tini' - int Np' + 1,
           Q = Q', R = R', lambda_g = lambda_g', lambda_y = lambda_y',
           us = us', ys = ys',
           yref = tile_column ys' Np',
           uref = (if np_any us_array then Some (tile_column us_array Np') else None),
           Hud = Hud', Hyd = Hyd',
           Up = rows_upto (u_dim' * Tini') Hud',
           Uf = rows_from (u_dim' * Tini') Hud',
           Yp = rows_upto (y_dim' * Tini') Hyd',
           Yf = rows_from (y_dim' * Tini') Hyd',
           Hc = \<lparr>nrows = 0, ncols = 0, entry = (\<lambda>i j. 0)\<rparr>,
           lbc_ineq = [], ubc_ineq = [],
           parameters = ((0, 0), (0, 0)), optimizing_target = (0, 0),
           solver = None, lbc = None, ubc = None\<rparr>
        in
          (case checkvar self of Inl e \<Rightarrow> Inl e | Inr u \<Rightarrow>
           case init_ineq_cons self ineqconidx ineqconbd of
             Inl e \<Rightarrow> Inl e
           | Inr (Hc', lb, ub) \<Rightarrow>
               Inr (self\<lparr>Hc := Hc', lbc_ineq := lb, ubc_ineq := ub,
                         parameters := ((int (u_dim' * Tini'), 1), (int (y_dim' * Tini'), 1)),
                         optimizing_target := (int T' - int Tini' - int Np' + 1, 1)\<rparr>))))"

subsection \<open>Formulation: the standard design\<close>

text \<open>
  The source methods build a CasADi expression once; below, the expression is the
  function that evaluates it at values of \<open>g\<close>, \<open>uini\<close> and \<open>yini\<close>. The arithmetic
  of arrays is the one of arrays whose shapes agree, which \<open>checkvar\<close> has established
  for every array of the controller. When none of the three tests on \<open>uloss\<close> holds,
  \<^verbatim>\<open>obj\<close> is never assigned (the check of \<open>uloss\<close> before excludes it).
\<close>

definition DeePC_objective ::
  "'h deepctools \<Rightarrow> string \<Rightarrow> error + (ndarray \<Rightarrow> ndarray \<Rightarrow> ndarray \<Rightarrow> ndarray)" where
  "DeePC_objective self uloss =
     (if uloss = ''u'' then
        let H = madd (matmul (matmul (npT (Yf self)) (Q self)) (Yf self))
                     (matmul (matmul (npT (Uf self)) (R self)) (Uf self));
            f = matmul (matmul (mneg (npT (Yf self))) (Q self)) (yref self)
        in Inr (\<lambda>g uini yini.
                  madd (smul (1 / 2) (matmul (matmul (npT g) H) g)) (matmul (npT f) g))
      else if uloss = ''uus'' then
        (case uref self of
           None \<Rightarrow> Inl (ValueError Missing_us)
         | Some uref' \<Rightarrow>
             let H = madd (matmul (matmul (npT (Yf self)) (Q self)) (Yf self))
                          (matmul (matmul (npT (Uf self)) (R self)) (Uf self));
                 f = msub (matmul (matmul (mneg (npT (Yf self))) (Q self)) (yref self))
                          (matmul (matmul (npT (Uf self)) (R self)) uref')
             in Inr (\<lambda>g uini yini.
                       madd (smul (1 / 2) (matmul (matmul (npT g) H) g)) (matmul (npT f) g)))
      else if uloss = ''du'' then
        Inr (\<lambda>g uini yini.
               let u_cur = matmul (Uf self) g;
                   u_prev = vstack (last_rows (u_dim self) uini)
                                   (but_last_rows (u_dim self) (matmul (Uf self) g));
                   du = msub u_cur u_prev;
                   y = matmul (Yf self) g;
                   y_loss = msub y (yref self)
               in madd (matmul (matmul (npT y_loss) (Q self)) y_loss)
                       (matmul (matmul (npT du) (R self)) du))
      else Inl UnboundLocalError)"

definition DeePC_constraints :: "'h deepctools \<Rightarrow> ndarray \<Rightarrow> ndarray \<Rightarrow> ndarray \<Rightarrow> ndarray" where
  \<comment> \<open>\<^verbatim>\<open>cs.vertcat(*C)\<close> for the three blocks of \<^verbatim>\<open>C\<close>\<close>
  "DeePC_constraints self g uini yini =
     vstack (msub (matmul (Up self) g) uini)
            (vstack (msub (matmul (Yp self) g) yini) (matmul (Hc self) g))"

definition DeePC_lbc :: "'h deepctools \<Rightarrow> real list" where
  "DeePC_lbc self =
     replicate (nat (fst (fst (parameters self)))) 0
       @ replicate (nat (fst (snd (parameters self)))) 0 @ lbc_ineq self"

definition DeePC_ubc :: "'h deepctools \<Rightarrow> real list" where
  "DeePC_ubc self =
     replicate (nat (fst (fst (parameters self)))) 0
       @ replicate (nat (fst (snd (parameters self)))) 0 @ ubc_ineq self"

definition init_DeePCsolver ::
  "(nlp_prob \<Rightarrow> 'o \<Rightarrow> 'h option) \<Rightarrow> string \<Rightarrow> 'o \<Rightarrow> 'h deepctools \<Rightarrow> error + 'h deepctools" where
  \<comment> \<open>\<open>nlpsol\<close> is the backend's constructor \<^verbatim>\<open>cs.nlpsol('solver', 'ipopt', nlp_prob, opts)\<close>;
      it returns \<open>None\<close> when the backend raises\<close>
  "init_DeePCsolver nlpsol uloss opts self =
     (if uloss \<notin> set [''u'', ''uus'', ''du''] then Inl (ValueError Unknown_uloss)
      else if g_dim self \<le> int ((u_dim self + y_dim self) * Tini self)
        then Inl (ValueError Not_enough_dof)
      else
        (case DeePC_objective self uloss of
           Inl e \<Rightarrow> Inl e
         | Inr obj \<Rightarrow>
             (case nlpsol \<lparr>nlp_f = obj, nlp_x = optimizing_target self,
                           nlp_p = parameters self, nlp_g = DeePC_constraints self\<rparr> opts of
                None \<Rightarrow> Inl BackendError
              | Some s \<Rightarrow>
                  Inr (self\<lparr>solver := Some s, lbc := Some (DeePC_lbc self),
                            ubc := Some (DeePC_ubc self)\<rparr>))))"

subsection \<open>Formulation: the robust design\<close>

definition RDeePC_objective ::
  "'h deepctools \<Rightarrow> ndarray \<Rightarrow> ndarray \<Rightarrow> string
     \<Rightarrow> error + (ndarray \<Rightarrow> ndarray \<Rightarrow> ndarray \<Rightarrow> ndarray)" where
  \<comment> \<open>\<open>lambda_g'\<close> and \<open>lambda_y'\<close> are \<^verbatim>\<open>self.lambda_g\<close> and \<^verbatim>\<open>self.lambda_y\<close>,
      which are not \<^verbatim>\<open>None\<close> here\<close>
  "RDeePC_objective self lambda_g' lambda_y' uloss =
     (if uloss = ''u'' then
        let H = madd (madd (madd (matmul (matmul (npT (Yf self)) (Q self)) (Yf self))
                                 (matmul (matmul (npT (Uf self)) (R self)) (Uf self)))
                           (matmul (matmul (npT (Yp self)) lambda_y') (Yp self)))
                     lambda_g'
        in Inr (\<lambda>g uini yini.
                  let f = msub (matmul (matmul (mneg (npT (Yp self))) lambda_y') yini)
                               (matmul (matmul (npT (Yf self)) (Q self)) (yref self))
                  in madd (smul (1 / 2) (matmul (matmul (npT g) H) g)) (matmul (npT f) g))
      else if uloss = ''uus'' then
        (case uref self of
           None \<Rightarrow> Inl (ValueError Missing_us)
         | Some uref' \<Rightarrow>
             let H = madd (madd (madd (matmul (matmul (npT (Yf self)) (Q self)) (Yf self))
                                      (matmul (matmul (npT (Uf self)) (R self)) (Uf self)))
                                (matmul (matmul (npT (Yp self)) lambda_y') (Yp self)))
                          lambda_g'
             in Inr (\<lambda>g uini yini.
                       let f = msub (msub (matmul (matmul (mneg (npT (Yp self))) lambda_y') yini)
                                          (matmul (matmul (npT (Yf self)) (Q self)) (yref self)))
                                    (matmul (matmul (npT (Uf self)) (R self)) uref')
                       in madd (smul (1 / 2) (matmul (matmul (npT g) H) g)) (matmul (npT f) g)))
      else if uloss = ''du'' then
        Inr (\<lambda>g uini yini.
               let u_cur = matmul (Uf self) g;
                   u_prev = vstack (last_rows (u_dim self) uini)
                                   (but_last_rows (u_dim self) (matmul (Uf self) g));
                   du = msub u_cur u_prev;
                   y = matmul (Yf self) g;
                   y_loss = msub y (yref self);
                   sigma_y = msub (matmul (Yp self) g) yini
               in madd (madd (madd (matmul (matmul (npT y_loss) (Q self)) y_loss)
                                   (matmul (matmul (npT du) (R self)) du))
                             (matmul (matmul (npT g) lambda_g') g))
                       (matmul (matmul (npT sigma_y) lambda_y') sigma_y))
      else Inl UnboundLocalError)"

definition RDeePC_constraints :: "'h deepctools \<Rightarrow> ndarray \<Rightarrow> ndarray \<Rightarrow> ndarray \<Rightarrow> ndarray" where
  "RDeePC_constraints self g uini yini =
     vstack (msub (matmul (Up self) g) uini) (matmul (Hc self) g)"

definition RDeePC_lbc :: "'h deepctools \<Rightarrow> real list" where
  "RDeePC_lbc self = replicate (nat (fst (fst (parameters self)))) 0 @ lbc_ineq self"

definition RDeePC_ubc :: "'h deepctools \<Rightarrow> real list" where
  "RDeePC_ubc self = replicate (nat (fst (fst (parameters self)))) 0 @ ubc_ineq self"

definition init_RDeePCsolver ::
  "(nlp_prob \<Rightarrow> 'o \<Rightarrow> 'h option) \<Rightarrow> string \<Rightarrow> 'o \<Rightarrow> 'h deepctools \<Rightarrow> error + 'h deepctools" where
  "init_RDeePCsolver nlpsol uloss opts self =
     (if uloss \<notin> set [''u'', ''uus'', ''du''] then Inl (ValueError Unknown_uloss)
      else
        (case lambda_g self of None \<Rightarrow> Inl (ValueError Missing_lambda) | Some lambda_g' \<Rightarrow>
         case lambda_y self of None \<Rightarrow> Inl (ValueError Missing_lambda) | Some lambda_y' \<Rightarrow>
           if g_dim self \<le> int (u_dim self * Tini self) then Inl (ValueError Not_enough_dof)
           else
             (case RDeePC_objective self lambda_g' lambda_y' uloss of
                Inl e \<Rightarrow> Inl e
              | Inr obj \<Rightarrow>
                  (case nlpsol \<lparr>nlp_f = obj, nlp_x = optimizing_target self,
                                nlp_p = parameters self, nlp_g = RDeePC_constraints self\<rparr> opts of
                     None \<Rightarrow> Inl BackendError
                   | Some s \<Rightarrow>
                       Inr (self\<lparr>solver := Some s, lbc := Some (RDeePC_lbc self),
                                 ubc := Some (RDeePC_ubc self)\<rparr>)))))"

subsection \<open>One step of the solver\<close>

definition ravel :: "ndarray \<Rightarrow> real list" where
  \<comment> \<open>\<^verbatim>\<open>x.full().ravel()\<close>: all entries, row by row\<close>
  "ravel x = concat (rows x)"

definition matvec :: "ndarray \<Rightarrow> real list \<Rightarrow> real list" where
  \<comment> \<open>\<^verbatim>\<open>np.matmul(A, v)\<close> for a one-dimensional \<^verbatim>\<open>v\<close>\<close>
  "matvec A v = map (\<lambda>i. \<Sum>k\<in>{..<ncols A}. entry A i k * v ! k) [0..<nrows A]"

definition solver_step ::
  "(ndarray \<Rightarrow> ndarray)
     \<Rightarrow> ('h \<Rightarrow> ndarray \<Rightarrow> ndarray \<Rightarrow> real list option \<Rightarrow> real list option \<Rightarrow> ndarray option)
     \<Rightarrow> real \<Rightarrow> real \<Rightarrow> 'h deepctools \<Rightarrow> ndarray \<Rightarrow> ndarray
     \<Rightarrow> error + (real list \<times> real list \<times> real)" where
  \<comment> \<open>\<open>pinv\<close> is \<^verbatim>\<open>np.linalg.pinv\<close>; \<open>backend\<close> is the call of the solver object with
      \<^verbatim>\<open>x0\<close>, \<^verbatim>\<open>p\<close>, \<^verbatim>\<open>lbg\<close>, \<^verbatim>\<open>ubg\<close>, returning \<^verbatim>\<open>sol['x']\<close> or \<open>None\<close> when it raises;
      \<open>t0\<close> and \<open>t1\<close> are the two readings of the clock\<close>
  "solver_step pinv backend t0 t1 self uini yini =
     (if ncols uini \<noteq> ncols yini then Inl (ValueError Dimension_mismatch)
      else
        let parameters' = vstack uini yini in
        if ncols (Up self) \<noteq> ncols (Yp self) then Inl (ValueError Dimension_mismatch)
        else
          let P = pinv (vstack (Up self) (Yp self)) in
          if ncols P \<noteq> nrows parameters' then Inl (ValueError Dimension_mismatch)
          else
            let g0_guess = matmul P parameters' in
            (case solver self of
               None \<Rightarrow> Inl TypeError
             | Some s \<Rightarrow>
                 (case backend s g0_guess parameters' (lbc self) (ubc self) of
                    None \<Rightarrow> Inl BackendError
                  | Some x \<Rightarrow>
                      let t_s = t1 - t0;
                          g_opt = ravel x
                      in if ncols (Uf self) \<noteq> length g_opt
                         then Inl (ValueError Dimension_mismatch)
                         else Inr (matvec (Uf self) g_opt, g_opt, t_s))))"

section \<open>The Hankel matrix\<close>

definition hankel :: "ndarray \<Rightarrow> nat \<Rightarrow> error + ndarray" where
  \<comment> \<open>Modelled from the spec: \<^verbatim>\<open>util.hankel\<close>, which the constructor calls, is not among
      the sources. The spec (4.1): for a series of shape \<open>(T, dim)\<close> and a window \<open>L\<close>, a
      matrix of shape \<open>(dim * L, T - L + 1)\<close> whose column \<open>s\<close> is rows \<open>s\<close>, ..., \<open>s + L - 1\<close>
      of the series one below the other; a DimensionError if \<open>L > T\<close>.\<close>
  "hankel series L =
     (if L > nrows series then Inl DimensionError
      else Inr \<lparr>nrows = ncols series * L, ncols = nrows series - L + 1,
                entry = (\<lambda>r s. entry series (s + r div ncols series) (r mod ncols series))\<rparr>)"

section \<open>The inequality block, as the specification words it\<close>

text \<open>
  For an entry of the constraint specification: the base matrix and the dimension of its
  variable, the rows \<open>v + i * dim\<close> of the base matrix for every step \<open>i\<close> and every
  requested component \<open>v\<close> (\<open>np_row\<close> reads a row the way numpy does), and the bounds
  given for the variable, repeated once per step.
\<close>

definition base_matrix :: "'h deepctools \<Rightarrow> string \<Rightarrow> ndarray" where
  "base_matrix self varname = (if varname = ''u'' then Uf self else Yf self)"

definition base_dim :: "'h deepctools \<Rightarrow> string \<Rightarrow> nat" where
  "base_dim self varname = (if varname = ''u'' then u_dim self else y_dim self)"

definition np_row :: "ndarray \<Rightarrow> int \<Rightarrow> real list" where
  "np_row A k = row A (np_index (nrows A) k)"

definition spec_Hc_rows :: "'h deepctools \<Rightarrow> string \<times> int list \<Rightarrow> real list list" where
  "spec_Hc_rows self item =
     (case item of (varname, idx) \<Rightarrow>
        concat (map (\<lambda>i. map (\<lambda>v. np_row (base_matrix self varname)
                                      (v + int i * int (base_dim self varname))) idx)
                  [0..<Np self]))"

definition given_bound :: "(string \<times> real list) list \<Rightarrow> string \<Rightarrow> real list" where
  "given_bound kvs key = (case map_of kvs key of None \<Rightarrow> [] | Some b \<Rightarrow> b)"

definition spec_lbc :: "'h deepctools \<Rightarrow> (string \<times> real list) list \<Rightarrow> string \<times> int list \<Rightarrow> real list" where
  "spec_lbc self kvs item = concat (replicate (Np self) (given_bound kvs (''lb'' @ fst item)))"

definition spec_ubc :: "'h deepctools \<Rightarrow> (string \<times> real list) list \<Rightarrow> string \<times> int list \<Rightarrow> real list" where
  "spec_ubc self kvs item = concat (replicate (Np self) (given_bound kvs (''ub'' @ fst item)))"


section \<open>A small controller\<close>

text \<open>
  One input, one output, \<open>Tini = 1\<close>, \<open>Np = 3\<close> and the first \<open>T'\<close> of six samples, with
  the input's only component bounded. With six samples \<open>g_dim\<close> is \<open>3\<close>, with five it
  is \<open>2\<close>. The backend's constructor of the examples returns the problem it is given.
\<close>

definition np_array :: "real list list \<Rightarrow> ndarray" where
  \<comment> \<open>\<^verbatim>\<open>np.array(rs)\<close> for a list of rows of one length\<close>
  "np_array rs =
     \<lparr>nrows = length rs, ncols = (case rs of [] \<Rightarrow> 0 | r # _ \<Rightarrow> length r),
      entry = (\<lambda>i j. rs ! i ! j)\<rparr>"

definition np_eye :: "nat \<Rightarrow> ndarray" where
  \<comment> \<open>\<^verbatim>\<open>np.eye(n)\<close>\<close>
  "np_eye n = \<lparr>nrows = n, ncols = n, entry = (\<lambda>i j. if i = j then 1 else 0)\<rparr>"

definition example_init ::
  "nat \<Rightarrow> real \<Rightarrow> (string \<times> real list) list \<Rightarrow> error + nlp_prob deepctools" where
  "example_init T' u_s bd =
     init hankel 1 1 T' 1 3 (np_array [[2]])
       (np_array (take T' [[1], [2], [4], [7], [11], [16]]))
       (np_array (take T' [[0], [1], [3], [7], [14], [25]]))
       (np_eye 3) (np_eye 3) (Some (np_array [[u_s]]))
       (Some (np_eye (T' - 3))) (Some (np_eye 1))
       (Some [(''u'', [0])]) (Some bd)"

definition bounds :: "(string \<times> real list) list" where
  "bounds = [(''lbu'', [- 1]), (''ubu'', [1])]"

definition ragged_bounds :: "(string \<times> real list) list" where
  "ragged_bounds = [(''lbu'', [- 1, - 2]), (''ubu'', [1])]"

definition ctrl :: "nlp_prob deepctools" where
  "ctrl = projr (example_init 6 1 bounds)"

definition ctrl_zero_us :: "nlp_prob deepctools" where
  "ctrl_zero_us = projr (example_init 6 0 bounds)"

definition ctrl_short :: "nlp_prob deepctools" where
  "ctrl_short = projr (example_init 5 1 bounds)"



definition keep_problem :: "nlp_prob \<Rightarrow> unit \<Rightarrow> nlp_prob option" where
  "keep_problem P opts = Some P"

section \<open>The constraint stack, as the specification words it\<close>



definition formulated :: "nlp_prob deepctools" where
  "formulated = projr (init_DeePCsolver keep_problem ''u'' () ctrl)"



section \<open>The quadratic objective, as the specification words it\<close>






section \<open>The objective on control increments, as the specification words it\<close>








text \<open>
  A backend for the examples: it returns the initial guess as its solution.
\<close>

definition return_guess ::
  "nlp_prob \<Rightarrow> ndarray \<Rightarrow> ndarray \<Rightarrow> real list option \<Rightarrow> real list option \<Rightarrow> ndarray option" where
  "return_guess s x0 p lbg ubg = Some x0"

section \<open>Evaluating the small controller\<close>

lemmas example_defs =
  example_init_def init_def hankel_def np_array_def np_eye_def checkvar_def checkshape_def
  shape_def rows_upto_def rows_from_def tile_column_def np_any_def init_ineq_cons_def
  ineq_entry_def ineq_block_def subscript_def take_rows_def idx_H_def np_tile_def np_index_def
  bounds_def ragged_bounds_def Let_def numeral_3_eq_3

lemma example_init_ctrl: "example_init 6 1 bounds = Inr ctrl"
proof -
  have "\<not> isl (example_init 6 1 bounds)"
    by (simp add: example_defs)
  then show ?thesis unfolding ctrl_def by simp
qed

lemma example_init_ctrl_zero_us: "example_init 6 0 bounds = Inr ctrl_zero_us"
proof -
  have "\<not> isl (example_init 6 0 bounds)"
    by (simp add: example_defs)
  then show ?thesis unfolding ctrl_zero_us_def by simp
qed




lemma ctrl_dims:
  "u_dim ctrl = 1" "y_dim ctrl = 1" "Tini ctrl = 1" "Np ctrl = 3" "g_dim ctrl = 3"
  "lambda_g ctrl \<noteq> None" "lambda_y ctrl \<noteq> None" "uref ctrl \<noteq> None"
  by (simp_all add: ctrl_def example_defs)


lemma ctrl_short_dims:
  "u_dim ctrl_short = 1" "y_dim ctrl_short = 1" "Tini ctrl_short = 1" "Np ctrl_short = 3"
  "g_dim ctrl_short = 2" "lambda_g ctrl_short \<noteq> None" "lambda_y ctrl_short \<noteq> None"
  "uref ctrl_short \<noteq> None"
  by (simp_all add: ctrl_short_def example_defs)


section \<open>What the constructor establishes\<close>



lemma ineq_entry_fields:
  assumes "Uf a = Uf b" "Yf a = Yf b" "u_dim a = u_dim b" "y_dim a = y_dim b" "Np a = Np b"
  shows "ineq_entry a bd item = ineq_entry b bd item"
  using assms by (simp add: ineq_entry_def split: prod.split sum.split)

lemma ineq_loop_fields:
  assumes "Uf a = Uf b" "Yf a = Yf b" "u_dim a = u_dim b" "y_dim a = y_dim b" "Np a = Np b"
  shows "ineq_loop a bd items = ineq_loop b bd items"
  by (induction items)
    (simp_all add: ineq_entry_fields [OF assms] split: sum.split prod.split)

lemma init_ineq_cons_fields:
  assumes "Uf a = Uf b" "Yf a = Yf b" "u_dim a = u_dim b" "y_dim a = y_dim b" "Np a = Np b"
  shows "init_ineq_cons a idx bd = init_ineq_cons b idx bd"
  by (simp add: init_ineq_cons_def ineq_loop_fields [OF assms] split: option.split)

lemma checkvar_fields:
  assumes "Up a = Up b" "Uf a = Uf b" "Yp a = Yp b" "Yf a = Yf b"
    "u_dim a = u_dim b" "y_dim a = y_dim b" "Np a = Np b" "Tini a = Tini b"
    "g_dim a = g_dim b" "uref a = uref b" "yref a = yref b"
    "Q a = Q b" "R a = R b" "lambda_g a = lambda_g b" "lambda_y a = lambda_y b"
  shows "checkvar a = checkvar b"
  using assms by (simp add: checkvar_def)

lemma init_Inr:
  assumes "init hankel' u_dim' y_dim' T' Tini' Np' ys' ud yd Q' R' us' lambda_g' lambda_y'
             ineqconidx ineqconbd = Inr c"
  shows "checkvar c = Inr ()"
    and "init_ineq_cons c ineqconidx ineqconbd = Inr (Hc c, lbc_ineq c, ubc_ineq c)"
    and "parameters c = ((int (u_dim c * Tini c), 1), (int (y_dim c * Tini c), 1))"
    and "optimizing_target c = (g_dim c, 1)"
    and "u_dim c = u_dim'" and "y_dim c = y_dim'" and "Tini c = Tini'" and "Np c = Np'"
    and "g_dim c = int T' - int Tini' - int Np' + 1"
    and "lambda_g c = lambda_g'" and "lambda_y c = lambda_y'"
    and "\<exists>a. us' = Some a \<and> uref c = (if np_any a then Some (tile_column a Np') else None)"
    and "solver c = None" and "lbc c = None" and "ubc c = None"
proof -
  from assms obtain a where us: "us' = Some a"
    by (auto simp add: init_def split: option.splits)
  from assms us obtain Hud' where hu: "hankel' ud (Tini' + Np') = Inr Hud'"
    by (auto simp add: init_def split: sum.splits)
  from assms us hu obtain Hyd' where hy: "hankel' yd (Tini' + Np') = Inr Hyd'"
    by (auto simp add: init_def split: sum.splits)
  define self :: "'a deepctools" where "self =
          \<lparr>u_dim = u_dim', y_dim = y_dim', T = T', Tini = Tini', Np = Np',
           g_dim = int T' - int Tini' - int Np' + 1,
           Q = Q', R = R', lambda_g = lambda_g', lambda_y = lambda_y',
           us = us', ys = ys',
           yref = tile_column ys' Np',
           uref = (if np_any a then Some (tile_column a Np') else None),
           Hud = Hud', Hyd = Hyd',
           Up = rows_upto (u_dim' * Tini') Hud',
           Uf = rows_from (u_dim' * Tini') Hud',
           Yp = rows_upto (y_dim' * Tini') Hyd',
           Yf = rows_from (y_dim' * Tini') Hyd',
           Hc = \<lparr>nrows = 0, ncols = 0, entry = (\<lambda>i j. 0)\<rparr>,
           lbc_ineq = [], ubc_ineq = [],
           parameters = ((0, 0), (0, 0)), optimizing_target = (0, 0),
           solver = None, lbc = None, ubc = None\<rparr>"
  have unf: "(case checkvar self of Inl e \<Rightarrow> Inl e | Inr u \<Rightarrow>
           case init_ineq_cons self ineqconidx ineqconbd of
             Inl e \<Rightarrow> Inl e
           | Inr (Hc', lb, ub) \<Rightarrow>
               Inr (self\<lparr>Hc := Hc', lbc_ineq := lb, ubc_ineq := ub,
                         parameters := ((int (u_dim' * Tini'), 1), (int (y_dim' * Tini'), 1)),
                         optimizing_target := (int T' - int Tini' - int Np' + 1, 1)\<rparr>)) = Inr c"
    using assms unfolding init_def self_def us by (simp add: hu hy Let_def)
  then have cv: "checkvar self = Inr ()"
    by (cases "checkvar self") simp_all
  with unf obtain Hc' lb ub
    where ic: "init_ineq_cons self ineqconidx ineqconbd = Inr (Hc', lb, ub)"
      and c: "c = self\<lparr>Hc := Hc', lbc_ineq := lb, ubc_ineq := ub,
                         parameters := ((int (u_dim' * Tini'), 1), (int (y_dim' * Tini'), 1)),
                         optimizing_target := (int T' - int Tini' - int Np' + 1, 1)\<rparr>"
    by (cases "init_ineq_cons self ineqconidx ineqconbd") auto
  have "checkvar c = checkvar self"
    by (rule checkvar_fields) (simp_all add: c)
  with cv show "checkvar c = Inr ()" by simp
  have "init_ineq_cons c ineqconidx ineqconbd = init_ineq_cons self ineqconidx ineqconbd"
    by (rule init_ineq_cons_fields) (simp_all add: c)
  with ic show "init_ineq_cons c ineqconidx ineqconbd = Inr (Hc c, lbc_ineq c, ubc_ineq c)"
    by (simp add: c)
  show "parameters c = ((int (u_dim c * Tini c), 1), (int (y_dim c * Tini c), 1))"
    and "optimizing_target c = (g_dim c, 1)"
    and "u_dim c = u_dim'" and "y_dim c = y_dim'" and "Tini c = Tini'" and "Np c = Np'"
    and "g_dim c = int T' - int Tini' - int Np' + 1"
    and "lambda_g c = lambda_g'" and "lambda_y c = lambda_y'"
    and "solver c = None" and "lbc c = None" and "ubc c = None"
    by (simp_all add: c self_def)
  show "\<exists>a. us' = Some a \<and> uref c = (if np_any a then Some (tile_column a Np') else None)"
    using us by (simp add: c self_def)
qed

section \<open>Rows of selected and stacked arrays\<close>

lemma rows_vstack:
  assumes "ncols A = ncols B"
  shows "rows (vstack A B) = rows A @ rows B"
proof -
  have "[nrows A..<nrows A + nrows B] = map (\<lambda>i. i + nrows A) [0..<nrows B]"
    using map_add_upt [of "nrows A" "nrows B"] by (simp only: add.commute)
  with upt_add_eq_append [of 0 "nrows A" "nrows B"]
  have "[0..<nrows A + nrows B] = [0..<nrows A] @ map (\<lambda>i. i + nrows A) [0..<nrows B]"
    by simp
  then show ?thesis
    using assms by (simp add: rows_def row_def vstack_def)
qed

lemma np_concatenate_Inr:
  assumes "np_concatenate As = Inr C"
  shows "rows C = concat (map rows As) \<and> nrows C = sum_list (map nrows As)
         \<and> (\<forall>A\<in>set As. ncols A = ncols C) \<and> As \<noteq> []"
  using assms
proof (induction As arbitrary: C rule: np_concatenate.induct)
  case 1
  then show ?case by simp
next
  case (2 A)
  then show ?case by simp
next
  case (3 A B Bs)
  from "3.prems" obtain D where D: "np_concatenate (B # Bs) = Inr D"
    and n: "ncols A = ncols D" and C: "C = vstack A D"
    by (auto split: sum.splits if_splits)
  from "3.IH" [OF D] n C show ?case
    by (simp add: rows_vstack) (simp add: vstack_def)
qed

lemma take_rows_Inr:
  assumes "take_rows A idx = Inr H"
  shows "rows H = map (np_row A) idx" and "nrows H = length idx" and "ncols H = ncols A"
    and "\<forall>k\<in>set idx. - int (nrows A) \<le> k \<and> k < int (nrows A)"
proof -
  from assms have H: "H = \<lparr>nrows = length idx, ncols = ncols A,
                entry = (\<lambda>i. entry A (np_index (nrows A) (idx ! i)))\<rparr>"
    and r: "\<forall>k\<in>set idx. - int (nrows A) \<le> k \<and> k < int (nrows A)"
    by (auto simp add: take_rows_def split: if_splits)
  show "\<forall>k\<in>set idx. - int (nrows A) \<le> k \<and> k < int (nrows A)" by (rule r)
  show "nrows H = length idx" "ncols H = ncols A" by (simp_all add: H)
  have "map (\<lambda>i. np_row A (idx ! i)) [0..<length idx] = map (np_row A) idx"
    by (rule nth_equalityI) simp_all
  then show "rows H = map (np_row A) idx"
    unfolding H rows_def row_def np_row_def by simp
qed

lemma length_idx_H: "length (idx_H n d idx) = n * length idx"
  by (induction n) (simp_all add: idx_H_def)

lemma ineq_entry_Inr:
  assumes "ineq_entry self bd item = Inr (H, lb, ub)"
  shows "\<exists>kvs. bd = Some kvs
           \<and> (fst item = ''u'' \<or> fst item = ''y'')
           \<and> rows H = spec_Hc_rows self item
           \<and> lb = spec_lbc self kvs item \<and> ub = spec_ubc self kvs item
           \<and> nrows H = Np self * length (snd item)
           \<and> ncols H = ncols (base_matrix self (fst item))
           \<and> (\<forall>k\<in>set (idx_H (Np self) (base_dim self (fst item)) (snd item)).
                 - int (nrows (base_matrix self (fst item))) \<le> k
                 \<and> k < int (nrows (base_matrix self (fst item))))"
proof -
  obtain varname idx where item: "item = (varname, idx)" by (cases item)
  have spec: "spec_Hc_rows self item
      = map (np_row (base_matrix self varname)) (idx_H (Np self) (base_dim self varname) idx)"
    by (simp add: spec_Hc_rows_def item idx_H_def map_concat comp_def)
  from assms obtain kvs where kvs: "bd = Some kvs"
    by (cases bd) (auto simp add: ineq_entry_def item subscript_def split: if_splits)
  from assms have v: "varname = ''u'' \<or> varname = ''y''"
    by (auto simp add: ineq_entry_def item split: if_splits)
  from assms kvs v obtain lb' ub'
    where lb': "map_of kvs (''lb'' @ varname) = Some lb'"
      and ub': "map_of kvs (''ub'' @ varname) = Some ub'"
      and blk: "ineq_block (Np self) (base_matrix self varname) (base_dim self varname) lb' ub' idx
                  = Inr (H, lb, ub)"
    by (auto simp add: ineq_entry_def item subscript_def base_matrix_def base_dim_def
        split: if_splits option.splits)
  from blk have tr: "take_rows (base_matrix self varname)
                       (idx_H (Np self) (base_dim self varname) idx) = Inr H"
    and lb: "lb = np_tile lb' (Np self)" and ub: "ub = np_tile ub' (Np self)"
    by (auto simp add: ineq_block_def split: sum.splits)
  from take_rows_Inr [OF tr] kvs v lb ub lb' ub' spec show ?thesis
    by (simp add: item length_idx_H spec_lbc_def spec_ubc_def given_bound_def np_tile_def)
qed

lemma ineq_loop_Inr:
  assumes "ineq_loop self bd items = Inr (Hs, lbs, ubs)"
  shows "length Hs = length items \<and> length lbs = length items \<and> length ubs = length items
         \<and> (\<forall>i<length items. ineq_entry self bd (items ! i) = Inr (Hs ! i, lbs ! i, ubs ! i))"
  using assms
proof (induction items arbitrary: Hs lbs ubs)
  case Nil
  then show ?case by simp
next
  case (Cons item items)
  from Cons.prems obtain H lb ub Hs' lbs' ubs'
    where e: "ineq_entry self bd item = Inr (H, lb, ub)"
      and l: "ineq_loop self bd items = Inr (Hs', lbs', ubs')"
      and eq: "Hs = H # Hs'" "lbs = lb # lbs'" "ubs = ub # ubs'"
    by (auto split: sum.splits prod.splits)
  from Cons.IH [OF l] e eq show ?case
    by (auto simp add: nth_Cons split: nat.splits)
qed

lemma init_ineq_cons_Inr:
  assumes "init_ineq_cons self (Some items) bd = Inr (Hc', lb, ub)"
  shows "\<exists>kvs. bd = Some kvs
           \<and> (\<forall>item\<in>set items. fst item = ''u'' \<or> fst item = ''y'')
           \<and> rows Hc' = concat (map (spec_Hc_rows self) items)
           \<and> lb = concat (map (spec_lbc self kvs) items)
           \<and> ub = concat (map (spec_ubc self kvs) items)
           \<and> nrows Hc' = Np self * sum_list (map (\<lambda>item. length (snd item)) items)
           \<and> (\<forall>item\<in>set items. ncols (base_matrix self (fst item)) = ncols Hc')
           \<and> (\<forall>item\<in>set items.
                 \<forall>k\<in>set (idx_H (Np self) (base_dim self (fst item)) (snd item)).
                   - int (nrows (base_matrix self (fst item))) \<le> k
                   \<and> k < int (nrows (base_matrix self (fst item))))"
proof -
  from assms obtain Hs lbs ubs
    where loop: "ineq_loop self bd items = Inr (Hs, lbs, ubs)"
      and cat: "np_concatenate Hs = Inr Hc'"
      and lb: "lb = concat lbs" and ub: "ub = concat ubs"
    by (auto simp add: init_ineq_cons_def split: sum.splits prod.splits)
  note L = ineq_loop_Inr [OF loop]
  note C = np_concatenate_Inr [OF cat]
  from L C have ne: "items \<noteq> []" by auto
  then obtain item0 where "item0 \<in> set items" by (cases items) auto
  then obtain i0 where i0: "i0 < length items" "items ! i0 = item0"
    by (auto simp add: in_set_conv_nth)
  with L have "ineq_entry self bd item0 = Inr (Hs ! i0, lbs ! i0, ubs ! i0)" by auto
  from ineq_entry_Inr [OF this] obtain kvs where kvs: "bd = Some kvs" by auto
  have each: "fst (items ! i) = ''u'' \<or> fst (items ! i) = ''y''"
    "rows (Hs ! i) = spec_Hc_rows self (items ! i)"
    "lbs ! i = spec_lbc self kvs (items ! i)"
    "ubs ! i = spec_ubc self kvs (items ! i)"
    "nrows (Hs ! i) = Np self * length (snd (items ! i))"
    "ncols (Hs ! i) = ncols (base_matrix self (fst (items ! i)))"
    "\<forall>k\<in>set (idx_H (Np self) (base_dim self (fst (items ! i))) (snd (items ! i))).
         - int (nrows (base_matrix self (fst (items ! i)))) \<le> k
         \<and> k < int (nrows (base_matrix self (fst (items ! i))))"
    if "i < length items" for i
  proof -
    from L that have "ineq_entry self bd (items ! i) = Inr (Hs ! i, lbs ! i, ubs ! i)" by auto
    from ineq_entry_Inr [OF this] kvs
    show "fst (items ! i) = ''u'' \<or> fst (items ! i) = ''y''"
      "rows (Hs ! i) = spec_Hc_rows self (items ! i)"
      "lbs ! i = spec_lbc self kvs (items ! i)"
      "ubs ! i = spec_ubc self kvs (items ! i)"
      "nrows (Hs ! i) = Np self * length (snd (items ! i))"
      "ncols (Hs ! i) = ncols (base_matrix self (fst (items ! i)))"
      "\<forall>k\<in>set (idx_H (Np self) (base_dim self (fst (items ! i))) (snd (items ! i))).
         - int (nrows (base_matrix self (fst (items ! i)))) \<le> k
         \<and> k < int (nrows (base_matrix self (fst (items ! i))))"
      by auto
  qed
  have r: "map rows Hs = map (spec_Hc_rows self) items"
    using L each(2) by (intro nth_equalityI) simp_all
  have l: "lbs = map (spec_lbc self kvs) items"
    using L each(3) by (intro nth_equalityI) simp_all
  have u: "ubs = map (spec_ubc self kvs) items"
    using L each(4) by (intro nth_equalityI) simp_all
  have n: "map nrows Hs = map (\<lambda>item. Np self * length (snd item)) items"
    using L each(5) by (intro nth_equalityI) simp_all
  have cnt: "nrows Hc' = Np self * sum_list (map (\<lambda>item. length (snd item)) items)"
    using C n by (simp add: sum_list_const_mult)
  have cols: "\<forall>item\<in>set items. ncols (base_matrix self (fst item)) = ncols Hc'"
  proof
    fix item assume "item \<in> set items"
    then obtain i where i: "i < length items" "items ! i = item"
      by (auto simp add: in_set_conv_nth)
    with L have "Hs ! i \<in> set Hs" by simp
    with C have "ncols (Hs ! i) = ncols Hc'" by blast
    with each(6) [OF i(1)] i(2) show "ncols (base_matrix self (fst item)) = ncols Hc'" by simp
  qed
  have vars: "\<forall>item\<in>set items. fst item = ''u'' \<or> fst item = ''y''"
    using each(1) by (metis in_set_conv_nth)
  have rng: "\<forall>item\<in>set items.
                 \<forall>k\<in>set (idx_H (Np self) (base_dim self (fst item)) (snd item)).
                   - int (nrows (base_matrix self (fst item))) \<le> k
                   \<and> k < int (nrows (base_matrix self (fst item)))"
    using each(7) by (metis in_set_conv_nth)
  from kvs vars C r l u lb ub cnt cols rng show ?thesis by simp
qed

section \<open>What a formulation returns\<close>




lemma init_DeePCsolver_Inr:
  assumes "init_DeePCsolver nlpsol uloss opts self = Inr c'"
  shows "\<exists>obj s. uloss \<in> set [''u'', ''uus'', ''du'']
           \<and> int ((u_dim self + y_dim self) * Tini self) < g_dim self
           \<and> DeePC_objective self uloss = Inr obj
           \<and> nlpsol \<lparr>nlp_f = obj, nlp_x = optimizing_target self,
                      nlp_p = parameters self, nlp_g = DeePC_constraints self\<rparr> opts = Some s
           \<and> c' = self\<lparr>solver := Some s, lbc := Some (DeePC_lbc self),
                        ubc := Some (DeePC_ubc self)\<rparr>"
  using assms
  by (auto simp add: init_DeePCsolver_def split: if_splits sum.splits option.splits)







lemma formulated_ok: "init_DeePCsolver keep_problem ''u'' () ctrl = Inr formulated"
proof -
  have "\<not> isl (init_DeePCsolver keep_problem ''u'' () ctrl)"
    by (simp add: init_DeePCsolver_def DeePC_objective_def keep_problem_def ctrl_dims Let_def)
  then show ?thesis unfolding formulated_def by simp
qed




section \<open>Products of arrays, entry by entry\<close>








section \<open>Columns of sliced arrays\<close>

lemma length_column [simp]: "length (column A) = nrows A"
  by (simp add: column_def)












lemma ctrl_step_values:
  "ncols (Up ctrl) = 3" "ncols (Yp ctrl) = 3" "nrows (Up ctrl) = 1" "nrows (Yp ctrl) = 1"
  "ncols (Uf ctrl) = 3" "nrows (Uf ctrl) = 3"
  by (simp_all add: ctrl_def example_defs)

section \<open>Construction without a set-point or without constraints\<close>

text \<open>
  C9. With the set-point \<open>us\<close> left at its default \<^verbatim>\<open>None\<close>, construction ends with
  the AttributeError of \<^verbatim>\<open>us.any()\<close>, whatever the other arguments are: no Hankel
  matrix is built, no shape is checked and nothing is returned.
\<close>

theorem init_without_us:
  "init hankel u_dim' y_dim' T' Tini' Np' ys' ud yd Q' R' None lambda_g' lambda_y'
        ineqconidx ineqconbd = Inl AttributeError"
  by (simp add: init_def)

text \<open>
  C1. With no constraint specification (\<^verbatim>\<open>ineqconidx\<close> is \<^verbatim>\<open>None\<close>) the initialisation
  of the inequality constraints does not return three empty values: it ends with the
  AttributeError of \<^verbatim>\<open>tolist\<close> called on a Python list. So does the construction of
  the small controller when its constraint specification is left out.
\<close>

theorem init_ineq_cons_without_spec:
  "init_ineq_cons self None ineqconbd = Inl AttributeError
   \<and> (init hankel 1 1 6 1 3 (np_array [[2]])
         (np_array [[1], [2], [4], [7], [11], [16]])
         (np_array [[0], [1], [3], [7], [14], [25]])
         (np_eye 3) (np_eye 3) (Some (np_array [[1]]))
         (Some (np_eye 3)) (Some (np_eye 1)) None None
        :: error + nlp_prob deepctools) = Inl AttributeError"
  by (simp add: init_ineq_cons_def init_def hankel_def np_array_def np_eye_def checkvar_def
      checkshape_def shape_def rows_upto_def rows_from_def tile_column_def np_any_def Let_def)

section \<open>The checks of a formulation\<close>

text \<open>
  C6. For a recognised \<open>uloss\<close>, the standard formulation ends with the error about the
  degrees of freedom exactly when \<open>g_dim \<le> (u_dim + y_dim) * Tini\<close>; the robust one,
  with \<open>lambda_g\<close> and \<open>lambda_y\<close> given, exactly when \<open>g_dim \<le> u_dim * Tini\<close>. Hence
  dimensions with \<open>u_dim * Tini < g_dim \<le> (u_dim + y_dim) * Tini\<close> fail the standard check
  and pass the robust one.
\<close>

theorem degrees_of_freedom_check:
  assumes "uloss \<in> set [''u'', ''uus'', ''du'']"
  shows "((init_DeePCsolver nlpsol uloss opts self = Inl (ValueError Not_enough_dof))
            = (g_dim self \<le> int ((u_dim self + y_dim self) * Tini self)))
       \<and> (lambda_g self \<noteq> None \<and> lambda_y self \<noteq> None \<longrightarrow>
            ((init_RDeePCsolver nlpsol uloss opts self = Inl (ValueError Not_enough_dof))
               = (g_dim self \<le> int (u_dim self * Tini self))))
       \<and> (lambda_g self \<noteq> None \<and> lambda_y self \<noteq> None
            \<and> int (u_dim self * Tini self) < g_dim self
            \<and> g_dim self \<le> int ((u_dim self + y_dim self) * Tini self) \<longrightarrow>
            init_DeePCsolver nlpsol uloss opts self = Inl (ValueError Not_enough_dof)
            \<and> init_RDeePCsolver nlpsol uloss opts self \<noteq> Inl (ValueError Not_enough_dof))"
proof -
  have std: "(init_DeePCsolver nlpsol uloss opts self = Inl (ValueError Not_enough_dof))
            = (g_dim self \<le> int ((u_dim self + y_dim self) * Tini self))"
    using assms
    by (auto simp add: init_DeePCsolver_def DeePC_objective_def Let_def split: option.splits)
  have rob: "(init_RDeePCsolver nlpsol uloss opts self = Inl (ValueError Not_enough_dof))
               = (g_dim self \<le> int (u_dim self * Tini self))"
    if "lambda_g self \<noteq> None" "lambda_y self \<noteq> None"
    using assms that
    by (auto simp add: init_RDeePCsolver_def RDeePC_objective_def Let_def split: option.splits)
  from std rob show ?thesis by auto
qed

theorem degrees_of_freedom_check_witness:
  "init_DeePCsolver keep_problem ''u'' () ctrl_short = Inl (ValueError Not_enough_dof)
   \<and> init_RDeePCsolver keep_problem ''u'' () ctrl_short \<noteq> Inl (ValueError Not_enough_dof)
   \<and> init_DeePCsolver keep_problem ''du'' () ctrl \<noteq> Inl (ValueError Not_enough_dof)"
  using degrees_of_freedom_check [of "''u''" keep_problem "()" ctrl_short]
    degrees_of_freedom_check [of "''du''" keep_problem "()" ctrl]
  by (simp add: ctrl_short_dims ctrl_dims)




section \<open>The inequality constraints\<close>

lemma ctrl_Uf:
  "np_row (Uf ctrl) 0 = [2, 4, 7]" "np_row (Uf ctrl) 1 = [4, 7, 11]"
  "np_row (Uf ctrl) 2 = [7, 11, 16]"
  by (simp_all add: ctrl_def example_defs np_row_def row_def)

text \<open>
  C5. When the initialisation of the inequality constraints returns, every entry of the
  specification is for \<open>u\<close> or for \<open>y\<close>; \<open>Hc\<close> is, entry after entry, the rows
  \<open>v + i * dim\<close> of the base matrix (\<open>Uf\<close> with \<open>u_dim\<close>, \<open>Yf\<close> with \<open>y_dim\<close>) for
  each step \<open>i < Np\<close> and each requested component \<open>v\<close>, all of them rows that exist;
  \<open>lbc\<close> and \<open>ubc\<close> are the bounds given for the variable repeated \<open>Np\<close> times. A single
  constrained component gives exactly \<open>Np\<close> rows.
\<close>

theorem inequality_rows_tiled:
  assumes "init_ineq_cons self (Some items) ineqconbd = Inr (Hc', lb, ub)"
  shows "\<exists>kvs. ineqconbd = Some kvs
           \<and> (\<forall>item\<in>set items. fst item = ''u'' \<or> fst item = ''y'')
           \<and> rows Hc' = concat (map (spec_Hc_rows self) items)
           \<and> lb = concat (map (spec_lbc self kvs) items)
           \<and> ub = concat (map (spec_ubc self kvs) items)
           \<and> nrows Hc' = Np self * sum_list (map (\<lambda>item. length (snd item)) items)
           \<and> (\<forall>item\<in>set items.
                 \<forall>k\<in>set (idx_H (Np self) (base_dim self (fst item)) (snd item)).
                   - int (nrows (base_matrix self (fst item))) \<le> k
                   \<and> k < int (nrows (base_matrix self (fst item))))
           \<and> (\<forall>varname v. items = [(varname, [v])] \<longrightarrow> nrows Hc' = Np self)"
proof -
  from init_ineq_cons_Inr [OF assms] obtain kvs where kvs: "ineqconbd = Some kvs"
    and vars: "\<forall>item\<in>set items. fst item = ''u'' \<or> fst item = ''y''"
    and r: "rows Hc' = concat (map (spec_Hc_rows self) items)"
    and l: "lb = concat (map (spec_lbc self kvs) items)"
    and u: "ub = concat (map (spec_ubc self kvs) items)"
    and n: "nrows Hc' = Np self * sum_list (map (\<lambda>item. length (snd item)) items)"
    and rng: "\<forall>item\<in>set items.
                 \<forall>k\<in>set (idx_H (Np self) (base_dim self (fst item)) (snd item)).
                   - int (nrows (base_matrix self (fst item))) \<le> k
                   \<and> k < int (nrows (base_matrix self (fst item)))"
    by blast
  from n have "\<forall>varname v. items = [(varname, [v])] \<longrightarrow> nrows Hc' = Np self"
    by simp
  with kvs vars r l u n rng show ?thesis by blast
qed

theorem inequality_rows_tiled_witness:
  "rows (Hc ctrl) = [[2, 4, 7], [4, 7, 11], [7, 11, 16]]
   \<and> lbc_ineq ctrl = [- 1, - 1, - 1] \<and> ubc_ineq ctrl = [1, 1, 1] \<and> nrows (Hc ctrl) = 3"
proof -
  have "init_ineq_cons ctrl (Some [(''u'', [0])]) (Some bounds)
          = Inr (Hc ctrl, lbc_ineq ctrl, ubc_ineq ctrl)"
    using init_Inr(2) [OF example_init_ctrl [unfolded example_init_def]] .
  from inequality_rows_tiled [OF this] show ?thesis
    by (simp add: spec_Hc_rows_def spec_lbc_def spec_ubc_def given_bound_def base_matrix_def
        base_dim_def ctrl_dims ctrl_Uf bounds_def numeral_3_eq_3)
qed

section \<open>The constraints of a formulation\<close>






section \<open>The objectives\<close>





section \<open>One step of the solver\<close>

text \<open>
  C8. A call of the step with the history \<open>(uini, yini)\<close> returns \<open>(u_opt, g_opt, elapsed)\<close>
  exactly when a formulation has stored a solver, the shapes of the arrays agree and
  the backend, called with the initial guess \<open>pinv [Up; Yp] \<cdot> [uini; yini]\<close>, with the
  parameters \<open>[uini; yini]\<close> and with the stored bounds \<open>lbc\<close> and \<open>ubc\<close>, returns a
  solution; \<open>g_opt\<close> is that solution read as a list, \<open>u_opt\<close> is \<open>Uf \<cdot> g_opt\<close> and
  \<open>elapsed\<close> the difference of the two readings of the clock.
\<close>

theorem solver_step_protocol:
  "(solver_step pinv backend t0 t1 self uini yini = Inr (u_opt, g_opt, elapsed)) =
   (\<exists>s S p x. solver self = Some s
       \<and> ncols (Up self) = ncols (Yp self) \<and> S = vstack (Up self) (Yp self)
       \<and> rows S = rows (Up self) @ rows (Yp self)
       \<and> ncols uini = ncols yini \<and> p = vstack uini yini
       \<and> rows p = rows uini @ rows yini
       \<and> ncols (pinv S) = nrows p
       \<and> backend s (matmul (pinv S) p) p (lbc self) (ubc self) = Some x
       \<and> g_opt = ravel x \<and> length g_opt = ncols (Uf self)
       \<and> u_opt = map (\<lambda>i. \<Sum>k\<in>{..<ncols (Uf self)}. entry (Uf self) i k * g_opt ! k)
                    [0..<nrows (Uf self)]
       \<and> elapsed = t1 - t0)"
  by (auto simp add: solver_step_def Let_def matvec_def rows_vstack
      split: option.splits if_splits)

theorem solver_step_protocol_witness:
  "solver_step npT return_guess 3 5 formulated (np_array [[1]]) (np_array [[0]])
     = Inr ([38, 62, 93], [1, 2, 4], 2)"
proof -
  from init_DeePCsolver_Inr [OF formulated_ok] obtain s
    where f: "formulated = ctrl\<lparr>solver := Some s, lbc := Some (DeePC_lbc ctrl),
                ubc := Some (DeePC_ubc ctrl)\<rparr>"
    by blast
  have s: "solver formulated = Some s"
    by (simp add: f)
  have U: "Up formulated = Up ctrl" "Yp formulated = Yp ctrl" "Uf formulated = Uf ctrl"
    by (simp_all add: f)
  define S where "S = vstack (Up ctrl) (Yp ctrl)"
  define p where "p = vstack (np_array [[1]]) (np_array [[0]])"
  have r: "ravel (matmul (npT S) p) = [1, 2, 4]"
    by (simp add: ravel_def rows_def row_def matmul_def npT_def S_def p_def vstack_def
        ctrl_def example_defs lessThan_Suc)
  have u: "map (\<lambda>i. \<Sum>k\<in>{..<ncols (Uf ctrl)}. entry (Uf ctrl) i k * [1, 2, 4] ! k)
                    [0..<nrows (Uf ctrl)] = [38, 62, 93]"
    by (simp add: ctrl_def example_defs lessThan_Suc)
  have rS: "rows S = rows (Up ctrl) @ rows (Yp ctrl)"
    unfolding S_def by (rule rows_vstack) (simp add: ctrl_step_values)
  have rp: "rows p = rows (np_array [[1]]) @ rows (np_array [[0]])"
    unfolding p_def by (rule rows_vstack) (simp add: np_array_def)
  have n: "ncols (npT S) = nrows p"
    by (simp add: npT_def S_def p_def vstack_def ctrl_step_values np_array_def)
  have c: "ncols (Up ctrl) = ncols (Yp ctrl)" "ncols (np_array [[1]]) = ncols (np_array [[0]])"
    by (simp_all add: ctrl_step_values np_array_def)
  have b: "return_guess s (matmul (npT S) p) p (lbc formulated) (ubc formulated)
             = Some (matmul (npT S) p)"
    by (simp add: return_guess_def)
  have l: "length [1, 2, 4 :: real] = ncols (Uf ctrl)"
    by (simp add: ctrl_step_values)
  have e: "(2 :: real) = 5 - 3" by simp
  from s c rS rp n b r l u e S_def p_def
  have "\<exists>s S p x. solver formulated = Some s
       \<and> ncols (Up ctrl) = ncols (Yp ctrl) \<and> S = vstack (Up ctrl) (Yp ctrl)
       \<and> rows S = rows (Up ctrl) @ rows (Yp ctrl)
       \<and> ncols (np_array [[1]]) = ncols (np_array [[0]])
       \<and> p = vstack (np_array [[1]]) (np_array [[0]])
       \<and> rows p = rows (np_array [[1]]) @ rows (np_array [[0]])
       \<and> ncols (npT S) = nrows p
       \<and> return_guess s (matmul (npT S) p) p (lbc formulated) (ubc formulated) = Some x
       \<and> [1, 2, 4] = ravel x \<and> length [1, 2, 4 :: real] = ncols (Uf ctrl)
       \<and> [38, 62, 93] = map (\<lambda>i. \<Sum>k\<in>{..<ncols (Uf ctrl)}. entry (Uf ctrl) i k * [1, 2, 4] ! k)
                    [0..<nrows (Uf ctrl)]
       \<and> (2 :: real) = 5 - 3"
    by (intro exI [of _ s] exI [of _ S] exI [of _ p] exI [of _ "matmul (npT S) p"] conjI)
      (simp_all only:)
  then show ?thesis
    unfolding solver_step_protocol U .
qed

end
